theory Spec2Isabelle
  imports Main "HOL-Library.Char_ord" "HOL-Library.List_Lexorder"
begin

section \<open>Python values shared by the notebooks\<close>

text \<open>
  The notebooks are Python. An exception is a value of \<open>pyerror\<close>; a statement that can
  raise returns \<open>pyerror + 'a\<close>, with \<open>Inl\<close> for the exception. \<open>LibraryError\<close> stands for
  whatever a library call raises (its message is the payload).
\<close>

datatype pyerror = TypeError | AttributeError | KeyError | ValueError | IndexError
  | FileNotFoundError | AxisError | SystemExit | LibraryError string

text \<open>Sequencing two statements: the second runs only when the first did not raise.\<close>

definition and_then :: "pyerror + 'a \<Rightarrow> ('a \<Rightarrow> pyerror + 'b) \<Rightarrow> pyerror + 'b" where
  "and_then m f = (case m of Inl e \<Rightarrow> Inl e | Inr x \<Rightarrow> f x)"

section \<open>MNIST notebooks: the data-reduction cell\<close>

text \<open>
  \<^verbatim>\<open>
  reduction_factor = 2
  train_files_to_keep = train_files[::reduction_factor]
  for fname in (set(train_files) ^ set(train_files_to_keep)):
      os.remove(fname)
  \<close>
  The same lines run for \<open>test_files\<close>. A directory is the set of paths in it.
\<close>

definition reduction_factor :: nat where
  "reduction_factor = 2"

text \<open>\<open>xs[::k]\<close>: the elements at the indices \<open>0, k, 2k, ...\<close>; a zero step raises.\<close>

definition py_slice_step :: "nat \<Rightarrow> 'a list \<Rightarrow> pyerror + 'a list" where
  "py_slice_step k xs =
     (if k = 0 then Inl ValueError
      else Inr (map (\<lambda>i. xs ! i) (filter (\<lambda>i. i mod k = 0) [0..<length xs])))"

text \<open>\<open>A ^ B\<close> on Python sets.\<close>

definition py_set_xor :: "'a set \<Rightarrow> 'a set \<Rightarrow> 'a set" where
  "py_set_xor A B = (A - B) \<union> (B - A)"

text \<open>\<open>os.remove\<close>: deleting a path that is not there raises.\<close>

definition os_remove :: "'a \<Rightarrow> 'a set \<Rightarrow> pyerror + 'a set" where
  "os_remove fname fs = (if fname \<in> fs then Inr (fs - {fname}) else Inl FileNotFoundError)"

fun remove_loop :: "'a list \<Rightarrow> 'a set \<Rightarrow> pyerror + 'a set" where
  "remove_loop [] fs = Inr fs"
| "remove_loop (fname # rest) fs =
     (case os_remove fname fs of Inl e \<Rightarrow> Inl e | Inr fs' \<Rightarrow> remove_loop rest fs')"

text \<open>
  The whole step for one file list. Python visits the elements of a set in an order it does
  not specify: \<open>iter\<close> is that order, a list of the set's elements.
\<close>

definition reduce_files :: "('a set \<Rightarrow> 'a list) \<Rightarrow> 'a list \<Rightarrow> 'a set \<Rightarrow> pyerror + 'a set" where
  "reduce_files iter files fs =
     (case py_slice_step reduction_factor files of
        Inl e \<Rightarrow> Inl e
      | Inr files_to_keep \<Rightarrow> remove_loop (iter (py_set_xor (set files) (set files_to_keep))) fs)"

section \<open>MNIST local notebook: adding the channel dimension\<close>

text \<open>
  A NumPy array built by \<open>np.array\<close> from nested lists: a scalar, or a list of arrays.
  \<open>x_train\<close> and \<open>x_test\<close> are lists of images, an image a list of rows of pixels.
\<close>

datatype 'a ndarray = Scalar 'a | Array "'a ndarray list"

text \<open>\<open>len(a.shape)\<close>.\<close>

fun ndim :: "'a ndarray \<Rightarrow> nat" where
  "ndim (Scalar v) = 0"
| "ndim (Array []) = 1"
| "ndim (Array (a # as)) = Suc (ndim a)"

text \<open>
  \<open>np.expand_dims(a, axis)\<close> for \<open>0 \<le> axis\<close>: a new axis of length one at position
  \<open>axis\<close>; an axis beyond \<open>a.ndim\<close> raises.
\<close>

fun insert_axis :: "nat \<Rightarrow> 'a ndarray \<Rightarrow> 'a ndarray" where
  "insert_axis 0 a = Array [a]"
| "insert_axis (Suc k) (Array as) = Array (map (insert_axis k) as)"
| "insert_axis (Suc k) (Scalar v) = Scalar v"

definition expand_dims :: "'a ndarray \<Rightarrow> nat \<Rightarrow> pyerror + 'a ndarray" where
  "expand_dims a axis = (if axis \<le> ndim a then Inr (insert_axis axis a) else Inl AxisError)"

text \<open>\<open>a[i]\<close> for \<open>0 \<le> i\<close>.\<close>

definition row :: "'a ndarray \<Rightarrow> nat \<Rightarrow> pyerror + 'a ndarray" where
  "row a i =
     (case a of
        Scalar v \<Rightarrow> Inl IndexError
      | Array as \<Rightarrow> if i < length as then Inr (as ! i) else Inl IndexError)"

text \<open>
  \<^verbatim>\<open>
  if K.image_data_format() == "channels_first":
      x_train = np.expand_dims(x_train, 1)
      x_test = np.expand_dims(x_train, 1)
  else:
      x_train = np.expand_dims(x_train, len(x_train.shape))
      x_test = np.expand_dims(x_test, len(x_test.shape))
  \<close>
  The cell takes the loaded \<open>x_train\<close> and \<open>x_test\<close> and returns the new pair. In the
  first branch the second statement reads \<open>x_train\<close> after the first has reassigned it.
\<close>

definition add_channel_dim ::
  "string \<Rightarrow> 'a ndarray \<Rightarrow> 'a ndarray \<Rightarrow> pyerror + 'a ndarray \<times> 'a ndarray" where
  "add_channel_dim image_data_format x_train0 x_test0 =
     (if image_data_format = ''channels_first'' then
        and_then (expand_dims x_train0 1) (\<lambda>x_train.
        and_then (expand_dims x_train 1) (\<lambda>x_test.
        Inr (x_train, x_test)))
      else
        and_then (expand_dims x_train0 (ndim x_train0)) (\<lambda>x_train.
        and_then (expand_dims x_test0 (ndim x_test0)) (\<lambda>x_test.
        Inr (x_train, x_test))))"

section \<open>Scikit-learn notebook: the training script\<close>

text \<open>The namespace \<open>parse_known_args\<close> returns, for flags given with a value: a
  directory option is \<open>None\<close> when neither the flag nor its environment variable is there,
  and so are \<open>features\<close> and \<open>target_variable\<close> without their flags.\<close>

record args =
  n_estimators :: int
  min_samples_leaf :: int
  model_dir :: "string option"
  train_dir :: "string option"
  test_dir :: "string option"
  train_file :: string
  test_file :: string
  features :: "string option"
  target_variable :: "string option"

text \<open>\<open>os.path.join(a, b)\<close> on POSIX paths; \<open>None\<close> for \<open>a\<close> raises.\<close>

definition os_path_join :: "string option \<Rightarrow> string \<Rightarrow> pyerror + string" where
  "os_path_join a b =
     (case a of
        None \<Rightarrow> Inl TypeError
      | Some path \<Rightarrow>
          Inr (if b \<noteq> [] \<and> hd b = CHR ''/'' then b
               else if path = [] \<or> last path = CHR ''/'' then path @ b
               else path @ ''/'' @ b))"

text \<open>\<open>s.split()\<close>: the runs of characters between white space (the ASCII characters
  for which \<open>str.isspace\<close> holds); on \<open>None\<close> the attribute is missing.\<close>

definition is_space :: "char \<Rightarrow> bool" where
  "is_space c =
     (c \<in> set [CHR '' '', CHR 0x09, CHR 0x0A, CHR 0x0B, CHR 0x0C, CHR 0x0D,
                CHR 0x1C, CHR 0x1D, CHR 0x1E, CHR 0x1F])"

fun split_words :: "string \<Rightarrow> string \<Rightarrow> string list" where
  "split_words w [] = (if w = [] then [] else [w])"
| "split_words w (c # cs) =
     (if is_space c then (if w = [] then split_words [] cs else w # split_words [] cs)
      else split_words (w @ [c]) cs)"

definition str_split :: "string option \<Rightarrow> pyerror + string list" where
  "str_split s = (case s of None \<Rightarrow> Inl AttributeError | Some t \<Rightarrow> Inr (split_words [] t))"

text \<open>\<open>str(q)\<close> for an integer \<open>0 \<le> q\<close>.\<close>

fun str_nat :: "nat \<Rightarrow> string" where
  "str_nat n = (if n < 10 then [''0123456789'' ! n]
                else str_nat (n div 10) @ [''0123456789'' ! (n mod 10)])"

declare str_nat.simps [simp del]

text \<open>
  The calls into pandas, scikit-learn, NumPy and joblib. Each one returns its value or the
  exception it raises; the script does not depend on what the values are, so their types
  are parameters. A percentile is kept as the text \<open>str\<close> gives for it, which is all the
  script does with it. \<open>dump_error\<close> is the exception \<open>joblib.dump\<close> raises for a path, if any.
\<close>

record ('df, 'ser, 'mdl, 'arr) libs =
  read_csv :: "string \<Rightarrow> pyerror + 'df"
  select_columns :: "'df \<Rightarrow> string list \<Rightarrow> pyerror + 'df"
  select_column :: "'df \<Rightarrow> string option \<Rightarrow> pyerror + 'ser"
  RandomForestRegressor :: "int \<Rightarrow> int \<Rightarrow> pyerror + 'mdl"
  fit :: "'mdl \<Rightarrow> 'df \<Rightarrow> 'ser \<Rightarrow> pyerror + 'mdl"
  predict :: "'mdl \<Rightarrow> 'df \<Rightarrow> pyerror + 'arr"
  abs_diff :: "'arr \<Rightarrow> 'ser \<Rightarrow> pyerror + 'arr"
  percentile_str :: "'arr \<Rightarrow> nat \<Rightarrow> pyerror + string"
  dump_error :: "string \<Rightarrow> pyerror option"

text \<open>The files joblib writes and reads: a path holds the object dumped to it.\<close>

type_synonym 'mdl files = "string \<rightharpoonup> 'mdl"

definition joblib_dump ::
  "('df, 'ser, 'mdl, 'arr) libs \<Rightarrow> 'mdl \<Rightarrow> string \<Rightarrow> 'mdl files \<Rightarrow> pyerror + 'mdl files" where
  "joblib_dump lib model path fs =
     (case dump_error lib path of Some e \<Rightarrow> Inl e | None \<Rightarrow> Inr (fs(path \<mapsto> model)))"

definition joblib_load :: "string \<Rightarrow> 'mdl files \<Rightarrow> pyerror + 'mdl" where
  "joblib_load path fs = (case fs path of None \<Rightarrow> Inl FileNotFoundError | Some clf \<Rightarrow> Inr clf)"

text \<open>
  \<^verbatim>\<open>
  def model_fn(model_dir):
      clf = joblib.load(os.path.join(model_dir, "model.joblib"))
      return clf
  \<close>
\<close>

definition model_fn :: "string option \<Rightarrow> 'mdl files \<Rightarrow> pyerror + 'mdl" where
  "model_fn dir fs = and_then (os_path_join dir ''model.joblib'') (\<lambda>path. joblib_load path fs)"

text \<open>
  The \<open>__main__\<close> block after the arguments are parsed, one definition for each of its
  four parts. It has no \<open>try\<close>: a statement that raises ends the run.
  \<^verbatim>\<open>
  train_df = pd.read_csv(os.path.join(args.train_dir, args.train_file))
  test_df = pd.read_csv(os.path.join(args.test_dir, args.test_file))
  X_train = train_df[args.features.split()]
  X_test = test_df[args.features.split()]
  y_train = train_df[args.target_variable]
  y_test = test_df[args.target_variable]
  \<close>
\<close>

definition prepare_data ::
  "('df, 'ser, 'mdl, 'arr) libs \<Rightarrow> args \<Rightarrow> pyerror + 'df \<times> 'df \<times> 'ser \<times> 'ser" where
  "prepare_data lib a =
     and_then (os_path_join (train_dir a) (train_file a)) (\<lambda>train_path.
     and_then (read_csv lib train_path) (\<lambda>train_df.
     and_then (os_path_join (test_dir a) (test_file a)) (\<lambda>test_path.
     and_then (read_csv lib test_path) (\<lambda>test_df.
     and_then (str_split (features a)) (\<lambda>train_cols.
     and_then (select_columns lib train_df train_cols) (\<lambda>X_train.
     and_then (str_split (features a)) (\<lambda>test_cols.
     and_then (select_columns lib test_df test_cols) (\<lambda>X_test.
     and_then (select_column lib train_df (target_variable a)) (\<lambda>y_train.
     and_then (select_column lib test_df (target_variable a)) (\<lambda>y_test.
     Inr (X_train, X_test, y_train, y_test)))))))))))"

text \<open>
  \<^verbatim>\<open>
  model = RandomForestRegressor(n_estimators=args.n_estimators,
      min_samples_leaf=args.min_samples_leaf, n_jobs=-1)
  model.fit(X_train, y_train)
  \<close>
  \<open>fit\<close> changes the model in place: here it returns the fitted model.
\<close>

definition train_model ::
  "('df, 'ser, 'mdl, 'arr) libs \<Rightarrow> args \<Rightarrow> 'df \<Rightarrow> 'ser \<Rightarrow> pyerror + 'mdl" where
  "train_model lib a X_train y_train =
     and_then (RandomForestRegressor lib (n_estimators a) (min_samples_leaf a)) (\<lambda>model.
     fit lib model X_train y_train)"

text \<open>
  \<^verbatim>\<open>
  abs_err = np.abs(model.predict(X_test) - y_test)
  for q in [10, 50, 90]:
      print('AE-at-' + str(q) + 'th-percentile: ' + str(np.percentile(a=abs_err, q=q)))
  \<close>
  The result is the lines printed, one for each \<open>print\<close>.
\<close>

fun percentile_lines ::
  "('df, 'ser, 'mdl, 'arr) libs \<Rightarrow> 'arr \<Rightarrow> nat list \<Rightarrow> pyerror + string list" where
  "percentile_lines lib abs_err [] = Inr []"
| "percentile_lines lib abs_err (q # qs) =
     and_then (percentile_str lib abs_err q) (\<lambda>s.
     and_then (percentile_lines lib abs_err qs) (\<lambda>rest.
     Inr ((''AE-at-'' @ str_nat q @ ''th-percentile: '' @ s) # rest)))"

definition test_model ::
  "('df, 'ser, 'mdl, 'arr) libs \<Rightarrow> 'mdl \<Rightarrow> 'df \<Rightarrow> 'ser \<Rightarrow> pyerror + string list" where
  "test_model lib model X_test y_test =
     and_then (predict lib model X_test) (\<lambda>pred.
     and_then (abs_diff lib pred y_test) (\<lambda>abs_err.
     percentile_lines lib abs_err [10, 50, 90]))"

text \<open>
  \<^verbatim>\<open>
  path = os.path.join(args.model_dir, "model.joblib")
  joblib.dump(model, path)
  print('model saved at ' + path)
  \<close>
\<close>

definition save_model ::
  "('df, 'ser, 'mdl, 'arr) libs \<Rightarrow> args \<Rightarrow> 'mdl \<Rightarrow> 'mdl files \<Rightarrow> pyerror + 'mdl files \<times> string" where
  "save_model lib a model fs =
     and_then (os_path_join (model_dir a) ''model.joblib'') (\<lambda>path.
     and_then (joblib_dump lib model path fs) (\<lambda>fs'.
     Inr (fs', ''model saved at '' @ path)))"

text \<open>
  A run that ends without an exception returns the files and the strings printed, one
  for each call of \<open>print\<close>, in order. A printed string that holds a newline takes
  several lines of the console; \<open>console_lines\<close> below splits them.
\<close>

definition main ::
  "('df, 'ser, 'mdl, 'arr) libs \<Rightarrow> args \<Rightarrow> 'mdl files \<Rightarrow> pyerror + 'mdl files \<times> string list" where
  "main lib a fs =
     and_then (prepare_data lib a) (\<lambda>(X_train, X_test, y_train, y_test).
     and_then (train_model lib a X_train y_train) (\<lambda>model.
     and_then (test_model lib model X_test y_test) (\<lambda>lines.
     and_then (save_model lib a model fs) (\<lambda>(fs', saved).
     Inr (fs', [''extracting arguments'', ''reading data'',
                ''building training and testing datasets'', ''training model'',
                ''testing model''] @ lines @ [saved])))))"

subsection \<open>The estimator's metric definition\<close>









text \<open>
  A run to evaluate: every library call succeeds, every percentile prints as \<open>s\<close>, and
  the arguments are those of the notebook's local training cell.
\<close>

definition quiet_libs :: "string \<Rightarrow> (unit, unit, nat, unit) libs" where
  "quiet_libs s =
     \<lparr> read_csv = (\<lambda>p. Inr ()), select_columns = (\<lambda>d c. Inr ()),
       select_column = (\<lambda>d c. Inr ()), RandomForestRegressor = (\<lambda>n m. Inr 0),
       fit = (\<lambda>m X y. Inr (Suc m)), predict = (\<lambda>m X. Inr ()),
       abs_diff = (\<lambda>p y. Inr ()), percentile_str = (\<lambda>e q. Inr s),
       dump_error = (\<lambda>p. None) \<rparr>"

definition local_args :: args where
  "local_args =
     \<lparr> n_estimators = 100, min_samples_leaf = 3, model_dir = Some ''model/'',
       train_dir = Some ''data/'', test_dir = Some ''data/'',
       train_file = ''boston_train.csv'', test_file = ''boston_test.csv'',
       features = Some ''CRIM ZN INDUS CHAS NOX RM AGE DIS RAD TAX PTRATIO B LSTAT'',
       target_variable = Some ''target'' \<rparr>"


section \<open>Headline classifier (Keras): padding the input of \<open>classify\<close>\<close>

text \<open>
  \<open>pad_sequences(sequences, maxlen, padding, truncating, value)\<close> of Keras, as its
  documentation and loop have it: a row of \<open>maxlen\<close> copies of \<open>value\<close> for each sequence;
  an empty sequence leaves its row; otherwise the sequence is cut to its last
  (\<open>truncating = Pre\<close>, the default) or first \<open>maxlen\<close> tokens and written at the start
  (\<open>padding = Post\<close>) or the end of the row. \<open>s[-maxlen:]\<close> is all of \<open>s\<close> when
  \<open>maxlen = 0\<close>, and then the assignment does not fit the row.
\<close>

datatype side = Pre | Post

definition pad_row :: "nat \<Rightarrow> side \<Rightarrow> side \<Rightarrow> nat \<Rightarrow> nat list \<Rightarrow> pyerror + nat list" where
  "pad_row maxlen padding truncating val s =
     (if s = [] then Inr (replicate maxlen val)
      else
        let trunc = (case truncating of
                       Pre \<Rightarrow> if maxlen = 0 then s else drop (length s - maxlen) s
                     | Post \<Rightarrow> take maxlen s)
        in if maxlen < length trunc then Inl ValueError
           else Inr (case padding of
                       Post \<Rightarrow> trunc @ replicate (maxlen - length trunc) val
                     | Pre \<Rightarrow> replicate (maxlen - length trunc) val @ trunc))"

fun pad_sequences ::
  "nat list list \<Rightarrow> nat \<Rightarrow> side \<Rightarrow> side \<Rightarrow> nat \<Rightarrow> pyerror + nat list list" where
  "pad_sequences [] maxlen padding truncating val = Inr []"
| "pad_sequences (s # ss) maxlen padding truncating val =
     and_then (pad_row maxlen padding truncating val s) (\<lambda>r.
     and_then (pad_sequences ss maxlen padding truncating val) (\<lambda>rs.
     Inr (r # rs)))"

text \<open>
  \<open>tokenizer.texts_to_sequences(texts)\<close>: one sequence of word indices for each text. The
  fitted tokenizer is the function \<open>encode\<close> from a text to its sequence.
\<close>

definition texts_to_sequences :: "(string \<Rightarrow> nat list) \<Rightarrow> string list \<Rightarrow> nat list list" where
  "texts_to_sequences encode texts = map encode texts"

text \<open>
  \<^verbatim>\<open>
  def classify(text):
      encoded_example = tokenizer.texts_to_sequences([text])
      max_length = 40
      padded_example = pad_sequences(encoded_example, maxlen=max_length, padding="post")
      result = model.predict(padded_example)
  \<close>
  \<open>classify_padded\<close> is \<open>padded_example\<close>, the argument of \<open>model.predict\<close>.
\<close>

definition max_length :: nat where
  "max_length = 40"

definition classify_padded :: "(string \<Rightarrow> nat list) \<Rightarrow> string \<Rightarrow> pyerror + nat list list" where
  "classify_padded encode text =
     pad_sequences (texts_to_sequences encode [text]) max_length Post Pre 0"

section \<open>Headline classifiers: the embedding matrix and the models built on it\<close>

text \<open>A two-dimensional NumPy array: its shape and its rows.\<close>

record 'a matrix =
  shape0 :: nat
  shape1 :: nat
  rows :: "'a list list"

definition wf_matrix :: "'a matrix \<Rightarrow> bool" where
  "wf_matrix m = (length (rows m) = shape0 m \<and> list_all (\<lambda>r. length r = shape1 m) (rows m))"

text \<open>
  \<open>nn.Embedding(num_embeddings, embedding_dim)\<close> of PyTorch: a weight of that shape, which
  \<open>init\<close> fills. Its forward pass reads row \<open>i\<close> of the weight it has at that time.
\<close>

record 'a embedding =
  num_embeddings :: nat
  embedding_dim :: nat
  weight :: "'a matrix"

definition nn_Embedding :: "(nat \<Rightarrow> nat \<Rightarrow> 'a matrix) \<Rightarrow> nat \<Rightarrow> nat \<Rightarrow> 'a embedding" where
  "nn_Embedding init n d = \<lparr> num_embeddings = n, embedding_dim = d, weight = init n d \<rparr>"

definition embedding_forward :: "'a embedding \<Rightarrow> nat \<Rightarrow> pyerror + 'a list" where
  "embedding_forward emb i =
     (if i < shape0 (weight emb) then Inr (rows (weight emb) ! i) else Inl IndexError)"

text \<open>
  \<^verbatim>\<open>
  class Net(nn.Module):
      def __init__(self, vocab_size=400000, emb_dim=300, num_classes=4):
          self.embedding = nn.Embedding(vocab_size, emb_dim)
          self.conv1 = nn.Conv1d(emb_dim, 128, kernel_size=3)
          ...
          self.fc2 = nn.Linear(128, num_classes)
  \<close>
  Of the layers, the record keeps the sizes they are built with.
\<close>

record 'a net =
  embedding :: "'a embedding"
  conv1_in_channels :: nat
  fc2_out_features :: nat

definition Net :: "(nat \<Rightarrow> nat \<Rightarrow> 'a matrix) \<Rightarrow> nat \<Rightarrow> nat \<Rightarrow> nat \<Rightarrow> 'a net" where
  "Net init vocab_size emb_dim num_classes =
     \<lparr> embedding = nn_Embedding init vocab_size emb_dim,
       conv1_in_channels = emb_dim, fc2_out_features = num_classes \<rparr>"

text \<open>
  The first statements of \<open>train\<close>:
  \<^verbatim>\<open>
  model = Net(vocab_size=embedding_matrix.shape[0], emb_dim=embedding_matrix.shape[1],
              num_classes=num_classes)
  model.embedding.weight = torch.nn.parameter.Parameter(
      torch.FloatTensor(embedding_matrix), False)
  \<close>
\<close>

definition train_setup :: "(nat \<Rightarrow> nat \<Rightarrow> 'a matrix) \<Rightarrow> 'a matrix \<Rightarrow> nat \<Rightarrow> 'a net" where
  "train_setup init embedding_matrix num_classes =
     (let model = Net init (shape0 embedding_matrix) (shape1 embedding_matrix) num_classes
      in model\<lparr>embedding := (embedding model)\<lparr>weight := embedding_matrix\<rparr>\<rparr>)"

text \<open>
  \<open>Embedding(input_dim, output_dim, weights=[w], input_length=..)\<close> of Keras: the layer
  takes the weights given when their shape is \<open>(input_dim, output_dim)\<close>, and setting
  weights of another shape raises. A lookup reads row \<open>i\<close> for \<open>i < input_dim\<close>.
\<close>

record 'a keras_embedding =
  input_dim :: nat
  output_dim :: nat
  input_length :: nat
  embeddings :: "'a matrix"

definition Embedding ::
  "nat \<Rightarrow> nat \<Rightarrow> 'a matrix \<Rightarrow> nat \<Rightarrow> pyerror + 'a keras_embedding" where
  "Embedding n d w len =
     (if shape0 w = n \<and> shape1 w = d
      then Inr \<lparr> input_dim = n, output_dim = d, input_length = len, embeddings = w \<rparr>
      else Inl ValueError)"

definition keras_lookup :: "'a keras_embedding \<Rightarrow> nat \<Rightarrow> pyerror + 'a list" where
  "keras_lookup layer i =
     (if i < input_dim layer then Inr (rows (embeddings layer) ! i) else Inl IndexError)"

text \<open>
  \<^verbatim>\<open>
  model.add(Embedding(embedding_matrix.shape[0], embedding_matrix.shape[1],
      weights=[embedding_matrix], input_length=40, trainable=False, name="embed"))
  \<close>
\<close>

definition embed_layer :: "'a matrix \<Rightarrow> pyerror + 'a keras_embedding" where
  "embed_layer embedding_matrix =
     Embedding (shape0 embedding_matrix) (shape1 embedding_matrix) embedding_matrix 40"

section \<open>Scikit-learn notebook: the command line of the training script\<close>

text \<open>
  \<^verbatim>\<open>
  parser = argparse.ArgumentParser()
  parser.add_argument('--n_estimators', type=int, default=10)
  parser.add_argument('--min_samples_leaf', type=int, default=3)
  parser.add_argument('--model_dir', type=str, default=os.environ.get('SM_MODEL_DIR'))
  parser.add_argument('--train_dir', type=str, default=os.environ.get('SM_CHANNEL_TRAIN'))
  parser.add_argument('--test_dir', type=str, default=os.environ.get('SM_CHANNEL_TEST'))
  parser.add_argument('--train_file', type=str, default='boston_train.csv')
  parser.add_argument('--test_file', type=str, default='boston_test.csv')
  parser.add_argument('--features', type=str)
  parser.add_argument('--target_variable', type=str)
  args, _ = parser.parse_known_args()
  \<close>
  What follows is \<open>argparse\<close> as CPython 3.7 has it (the kernel of the notebook), for the
  parsers this script can build: the prefix character is \<open>-\<close>, abbreviations are
  allowed, an option stores one argument of type \<open>int\<close> or \<open>str\<close>, the parser has the help
  option that \<open>ArgumentParser()\<close> adds, and there are no positional arguments. A parser is
  its table of option strings, in the order they were added. An error of the parser and
  the help action both end the process: \<open>SystemExit\<close>.
\<close>

datatype arg_type = IntType | StrType

datatype action = StoreAction string arg_type | HelpAction

text \<open>The values a namespace holds: \<open>None\<close>, an integer, a string, a list.\<close>

datatype pyvalue = NoneValue | IntValue int | StrValue string | ListValue "pyvalue list"

type_synonym parser = "(string \<times> action) list"


text \<open>
  What \<open>_parse_optional\<close> returns for a string read as an option: the action (\<open>None\<close> for
  an option the parser does not have), the option string and the argument given with
  \<open>=\<close>. In the pattern of the argument strings, \<open>A\<close> is an argument, \<open>-\<close> is the string
  \<open>--\<close>, and \<open>O\<close> is an option.
\<close>

datatype option_tuple = OptionTuple "action option" string "string option"


definition script_parser :: parser where
  "script_parser =
     [(''-h'', HelpAction), (''--help'', HelpAction),
      (''--n_estimators'', StoreAction ''n_estimators'' IntType),
      (''--min_samples_leaf'', StoreAction ''min_samples_leaf'' IntType),
      (''--model_dir'', StoreAction ''model_dir'' StrType),
      (''--train_dir'', StoreAction ''train_dir'' StrType),
      (''--test_dir'', StoreAction ''test_dir'' StrType),
      (''--train_file'', StoreAction ''train_file'' StrType),
      (''--test_file'', StoreAction ''test_file'' StrType),
      (''--features'', StoreAction ''features'' StrType),
      (''--target_variable'', StoreAction ''target_variable'' StrType)]"



text \<open>
  \<open>int(s)\<close> in base ten on ASCII strings: white space around, a sign, then digits with
  single underscores between them.
\<close>

definition is_digit :: "char \<Rightarrow> bool" where
  "is_digit c = (c \<in> set ''0123456789'')"

definition is_c_space :: "char \<Rightarrow> bool" where
  "is_c_space c = (c \<in> set [CHR '' '', CHR 0x09, CHR 0x0A, CHR 0x0B, CHR 0x0C, CHR 0x0D])"

definition strip :: "string \<Rightarrow> string" where
  "strip s = rev (dropWhile is_c_space (rev (dropWhile is_c_space s)))"

fun no_double_underscore :: "string \<Rightarrow> bool" where
  "no_double_underscore (a # b # cs) =
     (\<not> (a = CHR ''_'' \<and> b = CHR ''_'') \<and> no_double_underscore (b # cs))"
| "no_double_underscore cs = True"

definition int_literal :: "string \<Rightarrow> bool" where
  "int_literal b =
     (b \<noteq> [] \<and> is_digit (hd b) \<and> is_digit (last b)
      \<and> list_all (\<lambda>c. is_digit c \<or> c = CHR ''_'') b \<and> no_double_underscore b)"

definition digits_value :: "string \<Rightarrow> int" where
  "digits_value b = foldl (\<lambda>a c. 10 * a + (int (of_char c) - 48)) 0 (filter is_digit b)"

definition py_int :: "string \<Rightarrow> int option" where
  "py_int s =
     (let t = strip s;
          neg = (t \<noteq> [] \<and> hd t = CHR ''-'');
          b = (if t \<noteq> [] \<and> (hd t = CHR ''-'' \<or> hd t = CHR ''+'') then tl t else t)
      in if int_literal b then Some (if neg then - digits_value b else digits_value b)
         else None)"

text \<open>
  \<open>_get_value\<close> applies the type of the option; \<open>_get_values\<close> first removes one \<open>--\<close>
  from the strings and returns a single value for exactly one string, a list otherwise
  (the empty list for \<open>--features=--\<close>).
\<close>

definition get_value :: "arg_type \<Rightarrow> string \<Rightarrow> pyerror + pyvalue" where
  "get_value ty s =
     (case ty of
        StrType \<Rightarrow> Inr (StrValue s)
      | IntType \<Rightarrow> (case py_int s of None \<Rightarrow> Inl SystemExit | Some i \<Rightarrow> Inr (IntValue i)))"

fun get_value_list :: "arg_type \<Rightarrow> string list \<Rightarrow> pyerror + pyvalue list" where
  "get_value_list ty [] = Inr []"
| "get_value_list ty (s # ss) =
     and_then (get_value ty s) (\<lambda>v.
     and_then (get_value_list ty ss) (\<lambda>vs. Inr (v # vs)))"

definition get_values :: "arg_type \<Rightarrow> string list \<Rightarrow> pyerror + pyvalue" where
  "get_values ty arg_strings =
     (case remove1 ''--'' arg_strings of
        [a] \<Rightarrow> get_value ty a
      | args \<Rightarrow> and_then (get_value_list ty args) (\<lambda>vs. Inr (ListValue vs)))"

text \<open>The regular expression \<^verbatim>\<open>^-\d+$|^-\d*\.\d+$\<close> of negative numbers, on ASCII digits;
  \<open>$\<close> also matches before a last newline.\<close>

definition negative_number :: "string \<Rightarrow> bool" where
  "negative_number s =
     (let t = (if s \<noteq> [] \<and> last s = CHR 0x0A then butlast s else s)
      in case t of
           [] \<Rightarrow> False
         | c # n \<Rightarrow>
             c = CHR ''-''
             \<and> ((n \<noteq> [] \<and> list_all is_digit n)
                \<or> (let frac = dropWhile is_digit n
                    in frac \<noteq> [] \<and> hd frac = CHR ''.'' \<and> tl frac \<noteq> []
                       \<and> list_all is_digit (tl frac))))"

text \<open>\<open>s.split('=', 1)\<close> for a string with \<open>=\<close> in it, and \<open>s.startswith(t)\<close>.\<close>

definition split_eq :: "string \<Rightarrow> string \<times> string" where
  "split_eq s = (takeWhile (\<lambda>c. c \<noteq> CHR ''='') s, tl (dropWhile (\<lambda>c. c \<noteq> CHR ''='') s))"

fun starts_with :: "string \<Rightarrow> string \<Rightarrow> bool" where
  "starts_with s [] = True"
| "starts_with [] (c # cs) = False"
| "starts_with (d # ds) (c # cs) = (d = c \<and> starts_with ds cs)"

text \<open>
  \<open>_get_option_tuples\<close>: the options that a string abbreviates. A string that begins
  with \<open>--\<close> is cut at its first \<open>=\<close>, and every option string that begins with the
  part before matches. A string with one \<open>-\<close> matches an option string equal to its
  first two characters, the rest being the argument, and every option string that begins
  with the whole string.
\<close>

definition get_option_tuples :: "parser \<Rightarrow> string \<Rightarrow> option_tuple list" where
  "get_option_tuples p option_string =
     (if option_string ! 1 = CHR ''-'' then
        let option_prefix = (if CHR ''='' \<in> set option_string
                             then fst (split_eq option_string) else option_string);
            explicit_arg = (if CHR ''='' \<in> set option_string
                            then Some (snd (split_eq option_string)) else None)
        in map (\<lambda>(os, act). OptionTuple (Some act) os explicit_arg)
             (filter (\<lambda>(os, act). starts_with os option_prefix) p)
      else
        concat (map (\<lambda>(os, act).
                  if os = take 2 option_string
                  then [OptionTuple (Some act) os (Some (drop 2 option_string))]
                  else if starts_with os option_string
                  then [OptionTuple (Some act) os None]
                  else []) p))"

text \<open>
  \<open>_parse_optional\<close>: \<open>None\<close> for a string read as an argument. Several abbreviated
  options are an error of the parser (\<open>ambiguous option\<close>).
\<close>

definition parse_optional :: "parser \<Rightarrow> string \<Rightarrow> pyerror + option_tuple option" where
  "parse_optional p arg_string =
     (if arg_string = [] then Inr None
      else if hd arg_string \<noteq> CHR ''-'' then Inr None
      else case map_of p arg_string of
        Some act \<Rightarrow> Inr (Some (OptionTuple (Some act) arg_string None))
      | None \<Rightarrow>
          if length arg_string = 1 then Inr None
          else case (if CHR ''='' \<in> set arg_string
                     then map_of p (fst (split_eq arg_string)) else None) of
            Some act \<Rightarrow>
              Inr (Some (OptionTuple (Some act) (fst (split_eq arg_string))
                           (Some (snd (split_eq arg_string)))))
          | None \<Rightarrow>
              (case get_option_tuples p arg_string of
                 t1 # t2 # ts \<Rightarrow> Inl SystemExit
               | [t] \<Rightarrow> Inr (Some t)
               | [] \<Rightarrow>
                   if negative_number arg_string then Inr None
                   else if CHR '' '' \<in> set arg_string then Inr None
                   else Inr (Some (OptionTuple None arg_string None))))"






text \<open>
  \<open>add_argument\<close> accepts only option strings that begin with the prefix character; none
  of a parser is the string \<open>--\<close> here.
\<close>

definition valid_parser :: "parser \<Rightarrow> bool" where
  "valid_parser p = list_all (\<lambda>(os, act). os \<noteq> [] \<and> hd os = CHR ''-'' \<and> os \<noteq> ''--'') p"

text \<open>
  The same parser told in one pass over the argument vector, to compare with the two
  passes above. A string is read in one of four ways: as an extra (an argument, or an
  option the parser does not have); as a known option with its argument in the same
  string (after \<open>=\<close>, or after the two characters of a short option); as a known option
  that takes the next string; or as the end of the run (an abbreviation of several
  options, or the help option).
\<close>

datatype reading = Extra | Flag string arg_type string | FlagNext string arg_type | Exit

definition reading_of :: "parser \<Rightarrow> string \<Rightarrow> reading" where
  "reading_of p s =
     (case parse_optional p s of
        Inl e \<Rightarrow> Exit
      | Inr None \<Rightarrow> Extra
      | Inr (Some (OptionTuple None option_string explicit_arg)) \<Rightarrow> Extra
      | Inr (Some (OptionTuple (Some HelpAction) option_string explicit_arg)) \<Rightarrow> Exit
      | Inr (Some (OptionTuple (Some (StoreAction dest ty)) option_string None)) \<Rightarrow>
          FlagNext dest ty
      | Inr (Some (OptionTuple (Some (StoreAction dest ty)) option_string (Some e))) \<Rightarrow>
          Flag dest ty e)"




section \<open>Splitting a dataset\<close>

text \<open>
  \<open>train_test_split(X, y, test_size=t, random_state=s)\<close> of scikit-learn, with the
  defaults the notebooks leave (\<open>train_size=None\<close>, \<open>shuffle=True\<close>, no stratification).
  The fraction \<open>t\<close> is a pair \<open>(num, den)\<close>: \<open>(1, 4)\<close> for 0.25 and \<open>(1, 5)\<close> for 0.2.
  \<open>_validate_shuffle_split\<close> takes \<open>n_test = ceil(t * n_samples)\<close>, here the ceiling
  of the exact product, and \<open>n_train = n_samples - n_test\<close>, and raises when the training
  part would be empty.
\<close>

definition validate_shuffle_split :: "nat \<Rightarrow> nat \<times> nat \<Rightarrow> pyerror + nat \<times> nat" where
  "validate_shuffle_split n_samples test_size =
     (case test_size of (num, den) \<Rightarrow>
        if num = 0 \<or> den \<le> num then Inl ValueError
        else
          let n_test = (n_samples * num + den - 1) div den;
              n_train = n_samples - n_test
          in if n_train = 0 then Inl ValueError else Inr (n_train, n_test))"

text \<open>
  The arrays must have the same number of rows. \<open>permutation n\<close> is the shuffle of
  \<open>0, ..., n - 1\<close> that the random state draws; the first \<open>n_test\<close> indices are the test
  rows, the next \<open>n_train\<close> the training rows. The result is in the order
  \<open>X_train, X_test, y_train, y_test\<close>.
\<close>

definition train_test_split ::
  "(nat \<Rightarrow> nat list) \<Rightarrow> 'x list \<Rightarrow> 'y list \<Rightarrow> nat \<times> nat
     \<Rightarrow> pyerror + 'x list \<times> 'x list \<times> 'y list \<times> 'y list" where
  "train_test_split permutation X y test_size =
     (if length X \<noteq> length y then Inl ValueError
      else
        and_then (validate_shuffle_split (length X) test_size) (\<lambda>(n_train, n_test).
        let p = permutation (length X);
            test = take n_test p;
            train = take n_train (drop n_test p)
        in Inr (map (\<lambda>i. X ! i) train, map (\<lambda>i. X ! i) test,
                map (\<lambda>i. y ! i) train, map (\<lambda>i. y ! i) test)))"

text \<open>
  \<^verbatim>\<open>
  X_train, X_test, y_train, y_test = train_test_split(
      data.data, data.target, test_size=0.25, random_state=42)
  x_train, x_test, y_train, y_test = train_test_split(
      processed_docs, encoded_y, test_size=0.2, random_state=42)
  \<close>
\<close>

definition boston_split ::
  "(nat \<Rightarrow> nat list) \<Rightarrow> 'x list \<Rightarrow> 'y list \<Rightarrow> pyerror + 'x list \<times> 'x list \<times> 'y list \<times> 'y list" where
  "boston_split permutation data target = train_test_split permutation data target (1, 4)"

definition ag_news_split ::
  "(nat \<Rightarrow> nat list) \<Rightarrow> 'x list \<Rightarrow> 'y list \<Rightarrow> pyerror + 'x list \<times> 'x list \<times> 'y list \<times> 'y list" where
  "ag_news_split permutation processed_docs encoded_y =
     train_test_split permutation processed_docs encoded_y (1, 5)"

section \<open>Properties\<close>

subsection \<open>Sequencing\<close>

lemma and_then_Inl [simp]: "and_then (Inl e) f = Inl e"
  by (simp add: and_then_def)

lemma and_then_Inr [simp]: "and_then (Inr x) f = f x"
  by (simp add: and_then_def)

lemma and_then_eq_Inr:
  "and_then m f = Inr y \<longleftrightarrow> (\<exists>x. m = Inr x \<and> f x = Inr y)"
  by (cases m) simp_all

subsection \<open>Properties of the data-reduction cell\<close>

lemma remove_loop_distinct:
  "distinct order \<Longrightarrow> set order \<subseteq> fs \<Longrightarrow> remove_loop order fs = Inr (fs - set order)"
proof (induction order arbitrary: fs)
  case Nil
  then show ?case by simp
next
  case (Cons f rest)
  then have "remove_loop rest (fs - {f}) = Inr (fs - {f} - set rest)"
    by (intro Cons.IH) auto
  with Cons.prems show ?case by (auto simp: os_remove_def)
qed

lemma length_filter_even: "length (filter (\<lambda>i. i mod 2 = 0) [0..<n]) = (n + 1) div 2"
proof (induction n)
  case 0
  then show ?case by simp
next
  case (Suc n)
  then show ?case by (cases "n mod 2 = 0") (simp_all, presburger+)
qed

lemma slice_two_subset:
  "py_slice_step 2 xs = Inr ys \<Longrightarrow> set ys \<subseteq> set xs"
  by (auto simp: py_slice_step_def)

lemma slice_two_length:
  "py_slice_step 2 xs = Inr ys \<Longrightarrow> length ys = (length xs + 1) div 2"
  by (auto simp: py_slice_step_def length_filter_even)

lemma slice_two_distinct:
  assumes "distinct xs" and "py_slice_step 2 xs = Inr ys"
  shows "distinct ys"
proof -
  have "inj_on (\<lambda>i. xs ! i) (set (filter (\<lambda>i. i mod 2 = 0) [0..<length xs]))"
    using assms(1) by (auto simp: inj_on_def nth_eq_iff_index_eq)
  then show ?thesis
    using assms(2) by (auto simp: py_slice_step_def distinct_map)
qed

text \<open>
  C8. For a sorted listing without repetitions of files that are all present, the
  symmetric difference of the listing and the kept files is their set difference, the
  loop removes exactly the files that are not kept, and of the listed files exactly
  \<open>files[::2]\<close> remain: \<open>ceil(n/2)\<close> of them.
\<close>

theorem reduce_files_keeps_every_second:
  fixes files :: "'a::linorder list"
  assumes "sorted_wrt (<) files"
    and "set files \<subseteq> fs"
    and "py_slice_step reduction_factor files = Inr keep"
    and "set (iter (py_set_xor (set files) (set keep))) = py_set_xor (set files) (set keep)"
    and "distinct (iter (py_set_xor (set files) (set keep)))"
  shows "py_set_xor (set files) (set keep) = set files - set keep
       \<and> reduce_files iter files fs = Inr (fs - (set files - set keep))
       \<and> (fs - (set files - set keep)) \<inter> set files = set keep
       \<and> card ((fs - (set files - set keep)) \<inter> set files) = (length files + 1) div 2"
proof -
  have dist: "distinct files"
    using assms(1) by (simp add: strict_sorted_iff)
  have sl: "py_slice_step 2 files = Inr keep"
    using assms(3) by (simp add: reduction_factor_def)
  have sub: "set keep \<subseteq> set files"
    using sl by (rule slice_two_subset)
  have sd: "py_set_xor (set files) (set keep) = set files - set keep"
    using sub by (auto simp: py_set_xor_def)
  have "remove_loop (iter (py_set_xor (set files) (set keep))) fs
      = Inr (fs - set (iter (py_set_xor (set files) (set keep))))"
    using assms(2,4,5) sd by (intro remove_loop_distinct) auto
  then have run: "reduce_files iter files fs = Inr (fs - (set files - set keep))"
    using assms(3,4) sd by (simp add: reduce_files_def)
  have rest: "(fs - (set files - set keep)) \<inter> set files = set keep"
    using sub assms(2) by auto
  have "distinct keep"
    using dist sl by (rule slice_two_distinct)
  then have "card (set keep) = length keep"
    by (rule distinct_card)
  then have "card ((fs - (set files - set keep)) \<inter> set files) = (length files + 1) div 2"
    using rest sl by (simp add: slice_two_length)
  with sd run rest show ?thesis by simp
qed

theorem reduce_files_keeps_every_second_witness:
  "reduce_files sorted_list_of_set [''t/0/1.png'', ''t/0/2.png'', ''t/1/3.png'']
     {''t/0/1.png'', ''t/0/2.png'', ''t/1/3.png'', ''t/readme''}
   = Inr {''t/0/1.png'', ''t/1/3.png'', ''t/readme''}
   \<and> card ({''t/0/1.png'', ''t/1/3.png'', ''t/readme''} \<inter> {''t/0/1.png'', ''t/0/2.png'', ''t/1/3.png''}) = 2"
proof -
  let ?files = "[''t/0/1.png'', ''t/0/2.png'', ''t/1/3.png'']"
  let ?keep = "[''t/0/1.png'', ''t/1/3.png'']"
  let ?fs = "{''t/0/1.png'', ''t/0/2.png'', ''t/1/3.png'', ''t/readme''}"
  have h1: "sorted_wrt (<) ?files" by simp
  have h2: "set ?files \<subseteq> ?fs" by simp
  have h3: "py_slice_step reduction_factor ?files = Inr ?keep"
    by (simp add: py_slice_step_def reduction_factor_def upt_conv_Cons)
  have fin: "finite (py_set_xor (set ?files) (set ?keep))"
    by (simp add: py_set_xor_def)
  have h4: "set (sorted_list_of_set (py_set_xor (set ?files) (set ?keep))) = py_set_xor (set ?files) (set ?keep)"
    using fin by simp
  have h5: "distinct (sorted_list_of_set (py_set_xor (set ?files) (set ?keep)))"
    by simp
  have d: "?fs - (set ?files - set ?keep) = {''t/0/1.png'', ''t/1/3.png'', ''t/readme''}"
    by auto
  show ?thesis
    using reduce_files_keeps_every_second [where iter = sorted_list_of_set, OF h1 h2 h3 h4 h5] unfolding d by simp
qed

subsection \<open>The channel dimension\<close>

text \<open>In the \<open>channels_first\<close> branch the loaded test images are not read at all; in
  the other branch row \<open>i\<close> of the new \<open>x_test\<close> is test image \<open>i\<close> with a last axis added.\<close>

lemma channels_first_ignores_x_test:
  "add_channel_dim ''channels_first'' x_train x_test
     = add_channel_dim ''channels_first'' x_train x_test'"
  by (simp add: add_channel_dim_def)


lemma channels_last_rows_aligned:
  assumes "fmt \<noteq> ''channels_first''"
    and "add_channel_dim fmt x_train (Array imgs) = Inr (x_train', x_test')"
    and "i < length imgs"
  shows "row x_test' i = Inr (insert_axis (ndim (Array imgs) - 1) (imgs ! i))"
proof -
  from assms(3) obtain a as where imgs: "imgs = a # as"
    by (cases imgs) auto
  have "x_test' = insert_axis (ndim (Array imgs)) (Array imgs)"
    using assms(1,2)
    by (auto simp: add_channel_dim_def expand_dims_def and_then_eq_Inr split: if_splits)
  then show ?thesis
    using assms(3) by (cases i) (simp_all add: imgs row_def)
qed

text \<open>
  C1. The claim fails in the \<open>channels_first\<close> branch. With one training image (a single
  pixel 7) and two test images (pixels 1 and 2), the cell returns as \<open>x_test\<close> the
  training images with two axes added: one row, where \<open>y_test\<close> has two labels, and
  no test image in it. Adding the axis to the loaded \<open>x_test\<close> gives the second value.
\<close>

theorem channels_first_x_test_built_from_x_train:
  "add_channel_dim ''channels_first''
       (Array [Array [Array [Scalar (7::nat)]]])
       (Array [Array [Array [Scalar 1]], Array [Array [Scalar 2]]])
     = Inr (Array [Array [Array [Array [Scalar 7]]]],
            Array [Array [Array [Array [Array [Scalar 7]]]]])
   \<and> expand_dims (Array [Array [Array [Scalar (1::nat)]], Array [Array [Scalar 2]]]) 1
     = Inr (Array [Array [Array [Array [Scalar 1]]], Array [Array [Array [Scalar 2]]]])"
  by (simp add: add_channel_dim_def expand_dims_def)

subsection \<open>The training script\<close>

lemma str_nat_10: "str_nat 10 = ''10''" by code_simp
lemma str_nat_50: "str_nat 50 = ''50''" by code_simp
lemma str_nat_90: "str_nat 90 = ''90''" by code_simp

lemma main_Inr:
  assumes "main lib a fs = Inr (fs', out)"
  shows "\<exists>X_train X_test y_train y_test model lines saved.
    prepare_data lib a = Inr (X_train, X_test, y_train, y_test)
    \<and> train_model lib a X_train y_train = Inr model
    \<and> test_model lib model X_test y_test = Inr lines
    \<and> save_model lib a model fs = Inr (fs', saved)
    \<and> out = [''extracting arguments'', ''reading data'',
            ''building training and testing datasets'', ''training model'',
            ''testing model''] @ lines @ [saved]"
  using assms by (auto simp: main_def and_then_eq_Inr split: prod.splits)

lemma save_model_Inr:
  assumes "save_model lib a model fs = Inr (fs', saved)"
  shows "\<exists>dir path. model_dir a = Some dir
    \<and> os_path_join (Some dir) ''model.joblib'' = Inr path
    \<and> fs' = fs(path \<mapsto> model) \<and> saved = ''model saved at '' @ path"
  using assms
  by (cases "model_dir a")
     (auto simp: save_model_def and_then_eq_Inr os_path_join_def joblib_dump_def
           split: option.splits)


text \<open>
  C3. After a run of the script that ends without an exception, \<open>args.model_dir\<close> is a
  string, the file \<open>model.joblib\<close> in that directory holds the fitted model, and
  \<open>model_fn\<close> on the same directory joins the same path and returns that model.
\<close>

theorem model_fn_loads_saved_model:
  assumes "main lib a fs = Inr (fs', out)"
  shows "\<exists>dir path X_train y_train model.
      model_dir a = Some dir
    \<and> path = (if dir = [] \<or> last dir = CHR ''/'' then dir else dir @ ''/'') @ ''model.joblib''
    \<and> os_path_join (model_dir a) ''model.joblib'' = Inr path
    \<and> train_model lib a X_train y_train = Inr model
    \<and> fs' path = Some model
    \<and> model_fn (model_dir a) fs' = Inr model
    \<and> last out = ''model saved at '' @ path"
proof -
  from main_Inr [OF assms] obtain X_train X_test y_train y_test model lines saved where
    tr: "train_model lib a X_train y_train = Inr model"
    and sv: "save_model lib a model fs = Inr (fs', saved)"
    and out: "out = [''extracting arguments'', ''reading data'',
            ''building training and testing datasets'', ''training model'',
            ''testing model''] @ lines @ [saved]"
    by blast
  from save_model_Inr [OF sv] obtain dir path where
    dir: "model_dir a = Some dir"
    and path: "os_path_join (Some dir) ''model.joblib'' = Inr path"
    and fs': "fs' = fs(path \<mapsto> model)"
    and saved: "saved = ''model saved at '' @ path"
    by blast
  have p: "path = (if dir = [] \<or> last dir = CHR ''/'' then dir else dir @ ''/'') @ ''model.joblib''"
    using path by (auto simp: os_path_join_def)
  have ld: "model_fn (model_dir a) fs' = Inr model"
    using dir path fs' by (simp add: model_fn_def joblib_load_def)
  have "last out = ''model saved at '' @ path"
    using out saved by simp
  with dir p path tr fs' ld show ?thesis by auto
qed

lemma split_features:
  "split_words [] ''CRIM ZN INDUS CHAS NOX RM AGE DIS RAD TAX PTRATIO B LSTAT''
     = [''CRIM'', ''ZN'', ''INDUS'', ''CHAS'', ''NOX'', ''RM'', ''AGE'', ''DIS'', ''RAD'', ''TAX'',
        ''PTRATIO'', ''B'', ''LSTAT'']"
  by (simp add: is_space_def)

lemma main_quiet:
  "main (quiet_libs s) local_args Map.empty
     = Inr ([''model/model.joblib'' \<mapsto> Suc 0],
            [''extracting arguments'', ''reading data'',
             ''building training and testing datasets'', ''training model'',
             ''testing model'', ''AE-at-10th-percentile: '' @ s,
             ''AE-at-50th-percentile: '' @ s, ''AE-at-90th-percentile: '' @ s,
             ''model saved at model/model.joblib''])"
  by (simp add: main_def prepare_data_def train_model_def test_model_def save_model_def
        quiet_libs_def local_args_def os_path_join_def str_split_def joblib_dump_def
        str_nat_10 str_nat_50 str_nat_90)

theorem model_fn_loads_saved_model_witness:
  "main (quiet_libs ''2.5'') local_args Map.empty
     = Inr ([''model/model.joblib'' \<mapsto> Suc 0],
            [''extracting arguments'', ''reading data'',
             ''building training and testing datasets'', ''training model'',
             ''testing model'', ''AE-at-10th-percentile: 2.5'',
             ''AE-at-50th-percentile: 2.5'', ''AE-at-90th-percentile: 2.5'',
             ''model saved at model/model.joblib''])
   \<and> model_fn (Some ''model/'') [''model/model.joblib'' \<mapsto> Suc 0] = Inr (Suc 0)"
proof -
  have run: "main (quiet_libs ''2.5'') local_args Map.empty
     = Inr ([''model/model.joblib'' \<mapsto> Suc 0],
            [''extracting arguments'', ''reading data'',
             ''building training and testing datasets'', ''training model'',
             ''testing model'', ''AE-at-10th-percentile: 2.5'',
             ''AE-at-50th-percentile: 2.5'', ''AE-at-90th-percentile: 2.5'',
             ''model saved at model/model.joblib''])"
    using main_quiet [of "''2.5''"] by simp
  from model_fn_loads_saved_model [OF run] obtain path model where
    "os_path_join (model_dir local_args) ''model.joblib'' = Inr path"
    "[''model/model.joblib'' \<mapsto> Suc 0] path = Some model"
    "model_fn (model_dir local_args) [''model/model.joblib'' \<mapsto> Suc 0] = Inr model"
    by blast
  then have "model_fn (Some ''model/'') [''model/model.joblib'' \<mapsto> Suc 0] = Inr (Suc 0)"
    by (auto simp: local_args_def os_path_join_def split: if_splits)
  with run show ?thesis by simp
qed




subsection \<open>The metric line\<close>













subsection \<open>Padding in \<open>classify\<close>\<close>

lemma pad_row_post_pre:
  "0 < n \<Longrightarrow> pad_row n Post Pre v s
     = Inr (if length s \<le> n then s @ replicate (n - length s) v
            else drop (length s - n) s)"
  by (auto simp: pad_row_def Let_def)

text \<open>
  C5. For every tokenizer and every text, \<open>classify\<close> gives \<open>model.predict\<close> one row of
  length exactly 40: a sequence of at most 40 tokens followed by zeros, or the last 40
  tokens of a longer one.
\<close>

theorem classify_padded_length:
  "\<exists>padded. classify_padded encode text = Inr [padded]
     \<and> length padded = 40
     \<and> (length (encode text) \<le> 40
          \<longrightarrow> padded = encode text @ replicate (40 - length (encode text)) 0)
     \<and> (40 < length (encode text)
          \<longrightarrow> padded = drop (length (encode text) - 40) (encode text))"
  by (auto simp: classify_padded_def texts_to_sequences_def max_length_def pad_row_post_pre)

theorem classify_padded_length_witness:
  "classify_padded (\<lambda>t. map length (split_words [] t)) ''markets were bullish''
     = Inr [ [7, 4, 7] @ replicate 37 0 ]
   \<and> length ([7, 4, 7] @ replicate 37 (0::nat)) = 40"
proof -
  let ?enc = "\<lambda>t. map length (split_words [] t)"
  have e: "?enc ''markets were bullish'' = [7, 4, 7]"
    by (simp add: is_space_def)
  from classify_padded_length [of ?enc "''markets were bullish''"] obtain padded where
    "classify_padded ?enc ''markets were bullish'' = Inr [padded]"
    and "length padded = 40"
    and "length (?enc ''markets were bullish'') \<le> 40
      \<longrightarrow> padded = ?enc ''markets were bullish''
            @ replicate (40 - length (?enc ''markets were bullish'')) 0"
    by blast
  then show ?thesis
    unfolding e by simp
qed

subsection \<open>Embedding sizes\<close>

text \<open>
  C6. For an embedding matrix of shape \<open>(shape0, shape1)\<close>, the PyTorch model of \<open>train\<close>
  has \<open>num_embeddings = shape0\<close> and \<open>embedding_dim = shape1\<close> and the matrix as its
  weight, the Keras layer is built with the same two sizes and the matrix as its weights,
  and in both every token index below \<open>shape0\<close> looks up its row of the matrix, a vector
  of \<open>shape1\<close> numbers.
\<close>

theorem models_built_on_embedding_matrix:
  assumes "wf_matrix m"
  shows "num_embeddings (embedding (train_setup init m k)) = shape0 m
     \<and> embedding_dim (embedding (train_setup init m k)) = shape1 m
     \<and> conv1_in_channels (train_setup init m k) = shape1 m
     \<and> weight (embedding (train_setup init m k)) = m
     \<and> embed_layer m = Inr \<lparr> input_dim = shape0 m, output_dim = shape1 m,
                              input_length = 40, embeddings = m \<rparr>
     \<and> (\<forall>i < shape0 m.
           embedding_forward (embedding (train_setup init m k)) i = Inr (rows m ! i)
         \<and> and_then (embed_layer m) (\<lambda>layer. keras_lookup layer i) = Inr (rows m ! i)
         \<and> length (rows m ! i) = shape1 m)"
  using assms
  by (auto simp: train_setup_def Net_def nn_Embedding_def embedding_forward_def Let_def
        embed_layer_def Embedding_def keras_lookup_def wf_matrix_def list_all_length)

theorem models_built_on_embedding_matrix_witness:
  "embedding_forward
     (embedding (train_setup (\<lambda>n d. \<lparr> shape0 = n, shape1 = d, rows = replicate n (replicate d 0) \<rparr>)
        \<lparr> shape0 = 3, shape1 = 2, rows = [ [0, 0], [1, 2], [3, 4::int] ] \<rparr> 4)) 2 = Inr [3, 4]
   \<and> and_then (embed_layer \<lparr> shape0 = 3, shape1 = 2, rows = [ [0, 0], [1, 2], [3, 4::int] ] \<rparr>)
        (\<lambda>layer. keras_lookup layer 2) = Inr [3, 4]
   \<and> num_embeddings (embedding (train_setup
        (\<lambda>n d. \<lparr> shape0 = n, shape1 = d, rows = replicate n (replicate d 0) \<rparr>)
        \<lparr> shape0 = 3, shape1 = 2, rows = [ [0, 0], [1, 2], [3, 4::int] ] \<rparr> 4)) = 3"
proof -
  let ?m = "\<lparr> shape0 = 3, shape1 = 2, rows = [ [0, 0], [1, 2], [3, 4::int] ] \<rparr>"
  have wf: "wf_matrix ?m"
    by (simp add: wf_matrix_def)
  have i: "(2::nat) < shape0 ?m"
    by simp
  show ?thesis
    using models_built_on_embedding_matrix [OF wf] i by fastforce
qed

subsection \<open>Dataset splits\<close>

lemma validate_quarter:
  "2 \<le> n \<Longrightarrow> validate_shuffle_split n (Suc 0, 4) = Inr (n - (n + 3) div 4, (n + 3) div 4)"
  by (auto simp: validate_shuffle_split_def Let_def)

lemma validate_fifth:
  "2 \<le> n \<Longrightarrow> validate_shuffle_split n (Suc 0, 5) = Inr (n - (n + 4) div 5, (n + 4) div 5)"
  by (auto simp: validate_shuffle_split_def Let_def)

lemma train_test_split_Inr_counts:
  assumes "train_test_split permutation X y test_size = Inr (X_train, X_test, y_train, y_test)"
    and "length (permutation (length X)) = length X"
  shows "length X_train + length X_test = length X
       \<and> length y_train + length y_test = length y"
  using assms
  by (cases "validate_shuffle_split (length X) test_size")
     (auto simp: train_test_split_def validate_shuffle_split_def Let_def
           split: if_splits prod.splits)

text \<open>
  C2, as amended. For features and targets with the same number of rows, at least two,
  both calls return, and in each the rows of the training part and of the test part add
  up to the rows of the input, for the features and for the targets; the test part has
  \<open>ceil(n/4)\<close> rows for the housing data and \<open>ceil(n/5)\<close> for the padded documents.
\<close>

theorem splits_preserve_row_count:
  assumes "length X = length y" and "2 \<le> length X"
    and "length (permutation (length X)) = length X"
  shows "(\<exists>X_train X_test y_train y_test.
            boston_split permutation X y = Inr (X_train, X_test, y_train, y_test)
          \<and> length X_test = (length X + 3) div 4 \<and> length y_test = length X_test
          \<and> length X_train + length X_test = length X
          \<and> length y_train + length y_test = length y)
       \<and> (\<exists>X_train X_test y_train y_test.
            ag_news_split permutation X y = Inr (X_train, X_test, y_train, y_test)
          \<and> length X_test = (length X + 4) div 5 \<and> length y_test = length X_test
          \<and> length X_train + length X_test = length X
          \<and> length y_train + length y_test = length y)"
proof -
  let ?n = "length X"
  have q: "(?n + 3) div 4 < ?n" and f: "(?n + 4) div 5 < ?n"
    using assms(2) by arith+
  have "\<exists>X_train X_test y_train y_test.
            boston_split permutation X y = Inr (X_train, X_test, y_train, y_test)
          \<and> length X_test = (length X + 3) div 4 \<and> length y_test = length X_test
          \<and> length X_train + length X_test = length X
          \<and> length y_train + length y_test = length y"
    using assms q
    by (simp add: boston_split_def train_test_split_def validate_quarter Let_def)
  moreover have "\<exists>X_train X_test y_train y_test.
            ag_news_split permutation X y = Inr (X_train, X_test, y_train, y_test)
          \<and> length X_test = (length X + 4) div 5 \<and> length y_test = length X_test
          \<and> length X_train + length X_test = length X
          \<and> length y_train + length y_test = length y"
    using assms f
    by (simp add: ag_news_split_def train_test_split_def validate_fifth Let_def)
  ultimately show ?thesis by blast
qed

text \<open>
  C2 as stated fails for a dataset without rows or with one row: the training part would
  be empty, and the call raises instead of returning the two parts.
\<close>

theorem split_of_tiny_dataset_raises:
  "boston_split (\<lambda>n. [0..<n]) ([]::nat list list) ([]::nat list) = Inl ValueError
 \<and> boston_split (\<lambda>n. [0..<n]) [ [6, 18::nat] ] [24::nat] = Inl ValueError
 \<and> ag_news_split (\<lambda>n. [0..<n]) ([]::nat list list) ([]::nat list list) = Inl ValueError
 \<and> ag_news_split (\<lambda>n. [0..<n]) [ [6, 18::nat] ] [ [0, 1, 0, 0::nat] ] = Inl ValueError"
  by (simp add: boston_split_def ag_news_split_def train_test_split_def
        validate_shuffle_split_def)

theorem splits_preserve_row_count_witness:
  "boston_split (\<lambda>n. rev [0..<n]) [ [1], [2], [3], [4], [5::nat] ] [10, 20, 30, 40, 50::nat]
     = Inr ([ [3], [2], [1] ], [ [5], [4] ], [30, 20, 10], [50, 40])
 \<and> ag_news_split (\<lambda>n. rev [0..<n]) [ [1], [2], [3], [4], [5::nat] ] [10, 20, 30, 40, 50::nat]
     = Inr ([ [4], [3], [2], [1] ], [ [5] ], [40, 30, 20, 10], [50])"
proof -
  let ?X = "[ [1], [2], [3], [4], [5::nat] ]"
  let ?y = "[10, 20, 30, 40, 50::nat]"
  let ?p = "\<lambda>n. rev [0..<n]"
  have l: "length ?X = length ?y" and two: "2 \<le> length ?X"
    and p: "length (?p (length ?X)) = length ?X"
    by simp_all
  have b: "boston_split ?p ?X ?y = Inr ([ [3], [2], [1] ], [ [5], [4] ], [30, 20, 10], [50, 40])"
    by (simp add: boston_split_def train_test_split_def validate_shuffle_split_def Let_def
          upt_conv_Cons)
  have a: "ag_news_split ?p ?X ?y = Inr ([ [4], [3], [2], [1] ], [ [5] ], [40, 30, 20, 10], [50])"
    by (simp add: ag_news_split_def train_test_split_def validate_shuffle_split_def Let_def
          upt_conv_Cons)
  show ?thesis
    using splits_preserve_row_count [where permutation = ?p, OF l two p] a b by simp
qed

subsection \<open>The command line\<close>

lemma map_of_valid_parser:
  assumes "valid_parser p" and "map_of p s = Some act"
  shows "s \<noteq> [] \<and> hd s = CHR ''-'' \<and> s \<noteq> ''--''"
proof -
  from assms(2) have "(s, act) \<in> set p"
    by (rule map_of_SomeD)
  with assms(1) show ?thesis
    by (auto simp: valid_parser_def list_all_iff)
qed

lemma parse_optional_known:
  assumes "valid_parser p" and "map_of p s = Some act"
  shows "parse_optional p s = Inr (Some (OptionTuple (Some act) s None))"
  using map_of_valid_parser [OF assms] assms(2) by (simp add: parse_optional_def)






lemma get_values_dash: "get_values ty [''--''] = Inr (ListValue [])"
  by (simp add: get_values_def)









lemma valid_script_parser: "valid_parser script_parser"
  by (simp add: valid_parser_def script_parser_def)







lemma starts_with_refl: "starts_with s s"
  by (induction s) simp_all

lemma starts_with_takeWhile: "starts_with s (takeWhile P s)"
  by (induction s) simp_all

text \<open>How single strings are read: a string that does not begin with \<open>-\<close> and a
  string that begins with \<open>--\<close> when no option string begins with its part before \<open>=\<close>
  are extras; an option string of the parser takes the next string.\<close>

lemma reading_of_argument:
  assumes "s = [] \<or> hd s \<noteq> CHR ''-''"
  shows "reading_of p s = Extra"
  using assms by (auto simp: reading_of_def parse_optional_def)

lemma reading_of_known_flag:
  assumes "valid_parser p" and "map_of p s = Some (StoreAction dest ty)"
  shows "reading_of p s = FlagNext dest ty"
  using parse_optional_known [OF assms] by (simp add: reading_of_def)

lemma reading_of_unknown_flag:
  assumes "starts_with s ''--''"
    and "list_all (\<lambda>(os, act). \<not> starts_with os (takeWhile (\<lambda>c. c \<noteq> CHR ''='') s)) p"
  shows "reading_of p s = Extra"
proof -
  let ?pre = "takeWhile (\<lambda>c. c \<noteq> CHR ''='') s"
  obtain cs where s: "s = CHR ''-'' # CHR ''-'' # cs"
    using assms(1) by (cases s; cases "tl s") auto
  have eq: "CHR ''='' \<notin> set s \<Longrightarrow> ?pre = s"
    by (auto simp: takeWhile_eq_all_conv)
  have no: "\<not> starts_with os ?pre" if "(os, act) \<in> set p" for os act
    using assms(2) that by (auto simp: list_all_iff)
  have m1: "map_of p s = None"
  proof (cases "map_of p s")
    case (Some act)
    then have "(s, act) \<in> set p" by (rule map_of_SomeD)
    with no [of s act] starts_with_takeWhile show ?thesis by blast
  qed simp
  have m2: "map_of p ?pre = None"
  proof (cases "map_of p ?pre")
    case (Some act)
    then have "(?pre, act) \<in> set p" by (rule map_of_SomeD)
    with no [of ?pre act] starts_with_refl show ?thesis by blast
  qed simp
  have f: "filter (\<lambda>(os, act). starts_with os ?pre) p = []"
    using no by (auto simp: filter_empty_conv)
  have f': "filter (\<lambda>(os, act). starts_with os s) p = []" if "CHR ''='' \<notin> set s"
    using f eq [OF that] by simp
  have "get_option_tuples p s = []"
    using f f' by (auto simp: get_option_tuples_def s split_eq_def Let_def)
  then have "parse_optional p s = Inr None
      \<or> parse_optional p s = Inr (Some (OptionTuple None s None))"
    using m1 m2 by (auto simp: parse_optional_def s split_eq_def)
  then show ?thesis
    by (auto simp: reading_of_def)
qed

end
